theory Spec2Isabelle
  imports Main
begin

section \<open>Go values used by the handlers\<close>

text \<open>
  A Go \<^verbatim>\<open>string\<close> is a sequence of bytes, and so is a \<^verbatim>\<open>[]byte\<close>; both are
  \<^typ>\<open>string\<close> here (a \<^typ>\<open>char\<close> is one byte). A \<^verbatim>\<open>[]byte\<close> can also be the nil
  slice, which is \<^term>\<open>None\<close>; \<^verbatim>\<open>len\<close> of the nil slice is 0.

  A \<^verbatim>\<open>time.Time\<close> is an instant counted in nanoseconds and a \<^verbatim>\<open>time.Duration\<close> a
  number of nanoseconds, both \<^typ>\<open>int\<close>: \<^verbatim>\<open>t.Add(d)\<close> is \<open>t + d\<close> and
  \<^verbatim>\<open>t.After(u)\<close> is \<open>u < t\<close>. Every reading of \<^verbatim>\<open>time.Now()\<close> is an argument of
  the function that reads it, so nothing is assumed about how the clock moves.
\<close>

type_synonym bytes = "string option"

definition len :: "bytes \<Rightarrow> nat" where
  "len b = (case b of None \<Rightarrow> 0 | Some xs \<Rightarrow> length xs)"

definition string_of :: "bytes \<Rightarrow> string" where
  "string_of b = (case b of None \<Rightarrow> [] | Some xs \<Rightarrow> xs)"

definition Hour :: int where
  "Hour = 3600 * 1000000000"

text \<open>An integer printed in decimal, as \<^verbatim>\<open>%d\<close> and \<^verbatim>\<open>%v\<close> print it.\<close>

fun digits :: "nat \<Rightarrow> string" where
  "digits n = (if n < 10 then [char_of (48 + n)]
               else digits (n div 10) @ [char_of (48 + n mod 10)])"

declare digits.simps [simp del]

definition itoa :: "int \<Rightarrow> string" where
  "itoa i = (if i < 0 then CHR ''-'' # digits (nat (- i)) else digits (nat i))"

text \<open>
  The write counter is a Go \<^verbatim>\<open>int\<close>, taken to be 64 bits wide: \<^verbatim>\<open>++\<close> wraps around
  in two's complement, and \<^verbatim>\<open>%\<close> truncates towards zero.
\<close>

definition int64 :: "int \<Rightarrow> int" where
  "int64 x = (x + 2 ^ 63) mod 2 ^ 64 - 2 ^ 63"

definition go_rem :: "int \<Rightarrow> int \<Rightarrow> int" where
  "go_rem a b = sgn a * (\<bar>a\<bar> mod \<bar>b\<bar>)"

section \<open>Geo proxy cache\<close>

record geoCacheEntry =
  body :: bytes
  expiresAt :: int

record request =
  Method :: string
  URL :: string
  Header :: "string \<rightharpoonup> string"
  ReqBody :: bytes

record image =
  Dx :: int
  Dy :: int
  pix :: "int list"

text \<open>
  The events are a log kept for the specification only: the calls of
  \<^verbatim>\<open>cleanupExpired\<close>, the requests handed to an HTTP client, and the calls of the image
  library. The code keeps no such log.
\<close>

datatype event =
    Sweep int
  | HTTPDo request
  | Decode string
  | Resize nat nat image
  | Encode image int

text \<open>
  The package-level state: the entries of \<^verbatim>\<open>geoCache_\<close> (the receiver of every call of
  \<^verbatim>\<open>get\<close> and \<^verbatim>\<open>set\<close> in the program), the counter \<^verbatim>\<open>geoCacheSetCount\<close>, and the
  log. The mutex is not modelled: the calls are taken one after the other.
\<close>

record world =
  entries :: "string \<rightharpoonup> geoCacheEntry"
  geoCacheSetCount :: int
  trace :: "event list"

definition get :: "world \<Rightarrow> string \<Rightarrow> int \<Rightarrow> bytes \<times> bool" where
  "get c key now =
     (case entries c key of
        None \<Rightarrow> (None, False)
      | Some e \<Rightarrow> if expiresAt e < now then (None, False) else (body e, True))"

definition cleanupExpired :: "world \<Rightarrow> int \<Rightarrow> world" where
  "cleanupExpired c now =
     c\<lparr>entries :=
          (\<lambda>k. case entries c k of
                 None \<Rightarrow> None
               | Some e \<Rightarrow> if expiresAt e < now then None else Some e),
       trace := trace c @ [Sweep now]\<rparr>"

text \<open>
  \<^verbatim>\<open>set\<close> reads the clock once for the expiry (\<open>now\<close>) and, when the sweep runs, once
  more inside \<^verbatim>\<open>cleanupExpired\<close> (\<open>now'\<close>).
\<close>

definition set' :: "world \<Rightarrow> string \<Rightarrow> bytes \<Rightarrow> int \<Rightarrow> int \<Rightarrow> int \<Rightarrow> world" where
  "set' c key b ttl now now' =
     (let c1 = c\<lparr>entries := (entries c)(key \<mapsto> \<lparr>body = b, expiresAt = now + ttl\<rparr>),
                 geoCacheSetCount := int64 (geoCacheSetCount c + 1)\<rparr>;
          doCleanup = (go_rem (geoCacheSetCount c1) 50 = 0)
      in if doCleanup then cleanupExpired c1 now' else c1)"

text \<open>Sequential use of the cache: a list of calls, run in order.\<close>

datatype call =
    Get string int
  | Set string bytes int int int

fun step :: "world \<Rightarrow> call \<Rightarrow> world" where
  "step c (Get key now) = c"
| "step c (Set key b ttl now now') = set' c key b ttl now now'"

fun run :: "world \<Rightarrow> call list \<Rightarrow> world" where
  "run c [] = c"
| "run c (x # xs) = run (step c x) xs"

fun is_Set :: "call \<Rightarrow> bool" where
  "is_Set (Set key b ttl now now') = True"
| "is_Set (Get key now) = False"




section \<open>The standard library, as far as the handlers use it\<close>

text \<open>
  What the Go standard library and the image libraries do is not code of the repository.
  The results of the calls that leave the process or run a codec are parameters, collected
  in one record: the environment variables, \<^verbatim>\<open>strings.TrimSpace\<close>, the error of
  \<^verbatim>\<open>url.Parse\<close> on a URL (if any), what each HTTP client returns for a request, and
  the three image functions. Errors of the library are their messages.

  A \<^verbatim>\<open>*http.Response\<close> is its status line, its status code and what
  \<^verbatim>\<open>io.ReadAll(resp.Body)\<close> returns for it: the bytes read and the error, if any.
\<close>

record response =
  Status :: string
  StatusCode :: int
  ReadAll_data :: bytes
  ReadAll_err :: "string option"

datatype interp = NearestNeighbor | Bilinear | Bicubic | MitchellNetravali | Lanczos2 | Lanczos3

record ext =
  Getenv :: "string \<Rightarrow> string"
  TrimSpace :: "string \<Rightarrow> string"
  url_Parse_err :: "string \<Rightarrow> string option"
  geoHTTPClient_Do :: "request \<Rightarrow> string + response"
  uploadHTTPClient_Do :: "request \<Rightarrow> string + response"
  image_Decode :: "string \<Rightarrow> string + image \<times> string"
  resize_Resize :: "nat \<Rightarrow> nat \<Rightarrow> image \<Rightarrow> interp \<Rightarrow> image"
  jpeg_Encode :: "image \<Rightarrow> int \<Rightarrow> string + string"

text \<open>
  \<^verbatim>\<open>http.NewRequestWithContext\<close> with a valid method and a context fails exactly when
  the URL does not parse; the request it returns has no header yet.
\<close>

definition NewRequestWithContext :: "ext \<Rightarrow> string \<Rightarrow> string \<Rightarrow> bytes \<Rightarrow> string + request" where
  "NewRequestWithContext x method url b =
     (case url_Parse_err x url of
        Some e \<Rightarrow> Inl e
      | None \<Rightarrow> Inr \<lparr>Method = method, URL = url, Header = Map.empty, ReqBody = b\<rparr>)"

definition Header_Set :: "request \<Rightarrow> string \<Rightarrow> string \<Rightarrow> request" where
  "Header_Set req k v = req\<lparr>Header := (Header req)(k \<mapsto> v)\<rparr>"

text \<open>
  An \<^verbatim>\<open>http.ResponseWriter\<close> is what has been written to it, as the response writer of
  the \<^verbatim>\<open>net/http\<close> server takes it: the header map, the informational (1xx) status
  codes sent so far, the final status code once it is written, and the body.

  \<^verbatim>\<open>WriteHeader\<close> does nothing when a final status was written before. Otherwise it
  panics for a code below 100 or above 999 (\<^verbatim>\<open>checkWriteHeaderCode\<close>); the panic is the
  \<^term>\<open>Inl\<close> result, with its message. A code from 100 to 199 other than 101 is sent as an
  informational header and leaves the final status open; any other code becomes the final
  status.

  \<^verbatim>\<open>Write\<close> first writes status 200 when no final status was written before. It then
  adds the data to the body, unless the data is empty or the status allows no body (1xx,
  204, 304): then it adds nothing and returns \<^verbatim>\<open>ErrBodyNotAllowed\<close>, which both callers
  in the source drop.
\<close>

record ResponseWriter =
  wHeader :: "string \<rightharpoonup> string"
  wInformational :: "int list"
  wCode :: "int option"
  wBody :: string

definition newResponseWriter :: ResponseWriter where
  "newResponseWriter = \<lparr>wHeader = Map.empty, wInformational = [], wCode = None, wBody = []\<rparr>"

definition w_Header_Set :: "ResponseWriter \<Rightarrow> string \<Rightarrow> string \<Rightarrow> ResponseWriter" where
  "w_Header_Set w k v = w\<lparr>wHeader := (wHeader w)(k \<mapsto> v)\<rparr>"

definition StatusSwitchingProtocols :: int where
  "StatusSwitchingProtocols = 101"

definition WriteHeader :: "ResponseWriter \<Rightarrow> int \<Rightarrow> string + ResponseWriter" where
  "WriteHeader w code =
     (case wCode w of
        Some old \<Rightarrow> Inr w
      | None \<Rightarrow>
          if code < 100 \<or> code > 999 then Inl (''invalid WriteHeader code '' @ itoa code)
          else if code \<ge> 100 \<and> code \<le> 199 \<and> code \<noteq> StatusSwitchingProtocols
          then Inr (w\<lparr>wInformational := wInformational w @ [code]\<rparr>)
          else Inr (w\<lparr>wCode := Some code\<rparr>))"

definition bodyAllowedForStatus :: "int \<Rightarrow> bool" where
  "bodyAllowedForStatus status \<longleftrightarrow>
     (if status \<ge> 100 \<and> status \<le> 199 then False
      else if status = 204 then False
      else if status = 304 then False
      else True)"

definition Write :: "ResponseWriter \<Rightarrow> string \<Rightarrow> ResponseWriter" where
  "Write w b =
     (let status = (case wCode w of None \<Rightarrow> 200 | Some code \<Rightarrow> code);
          w1 = w\<lparr>wCode := Some status\<rparr>
      in if b = [] then w1
         else if \<not> bodyAllowedForStatus status then w1
         else w1\<lparr>wBody := wBody w1 @ b\<rparr>)"

definition http_Error :: "ResponseWriter \<Rightarrow> string \<Rightarrow> int \<Rightarrow> string + ResponseWriter" where
  "http_Error w msg code =
     (let w1 = w\<lparr>wHeader := (wHeader w)(''Content-Length'' := None)\<rparr>;
          w2 = w_Header_Set w1 ''Content-Type'' ''text/plain; charset=utf-8'';
          w3 = w_Header_Set w2 ''X-Content-Type-Options'' ''nosniff''
      in case WriteHeader w3 code of
           Inl panic \<Rightarrow> Inl panic
         | Inr w4 \<Rightarrow> Inr (Write w4 (msg @ [CHR 0x0A])))"

definition StatusOK :: int where
  "StatusOK = 200"

definition StatusInternalServerError :: int where
  "StatusInternalServerError = 500"

definition StatusBadGateway :: int where
  "StatusBadGateway = 502"

definition logged :: "world \<Rightarrow> event \<Rightarrow> world" where
  "logged c ev = c\<lparr>trace := trace c @ [ev]\<rparr>"

section \<open>The geo proxy\<close>

definition nominatimUserAgent :: "ext \<Rightarrow> string" where
  "nominatimUserAgent x =
     (let ua = TrimSpace x (Getenv x ''NOMINATIM_USER_AGENT'')
      in if ua \<noteq> [] then ua
         else ''Cacao-App/1.0 (+https://example.com; contact@example.com)'')"

text \<open>
  The messages of the three failures, in UTF-8: "Erreur requete geo", "Service
  geolocalisation indisponible" and "Erreur lecture reponse geo", with e-circumflex and e-acute as two bytes each.
\<close>

definition msg_request :: string where
  "msg_request = ''Erreur requ'' @ [CHR 0xC3, CHR 0xAA] @ ''te geo''"

definition msg_unavailable :: string where
  "msg_unavailable = ''Service g'' @ [CHR 0xC3, CHR 0xA9] @ ''olocalisation indisponible''"

definition msg_read :: string where
  "msg_read = ''Erreur lecture r'' @ [CHR 0xC3, CHR 0xA9] @ ''ponse geo''"

text \<open>
  \<^verbatim>\<open>nominatimProxy\<close> reads the clock in \<^verbatim>\<open>get\<close> (\<open>tget\<close>), in \<^verbatim>\<open>set\<close>
  (\<open>tset\<close>) and in the sweep that \<^verbatim>\<open>set\<close> may run (\<open>tsweep\<close>). The request
  \<^verbatim>\<open>r\<close> gives the context only; a cancelled context shows as the error of \<^verbatim>\<open>Do\<close>
  or of \<^verbatim>\<open>io.ReadAll\<close>. The result is the state afterwards and the response writer, or
  the panic that ended the call.
\<close>

definition nominatimProxy ::
  "ext \<Rightarrow> world \<Rightarrow> string \<Rightarrow> ResponseWriter \<Rightarrow> int \<Rightarrow> int \<Rightarrow> int
     \<Rightarrow> world \<times> (string + ResponseWriter)" where
  "nominatimProxy x c nominatimURL w tget tset tsweep =
     (case get c nominatimURL tget of
        (cached, True) \<Rightarrow>
          (c, Inr (Write (w_Header_Set w ''Content-Type'' ''application/json; charset=utf-8'')
                     (string_of cached)))
      | (cached, False) \<Rightarrow>
          (case NewRequestWithContext x ''GET'' nominatimURL None of
             Inl err \<Rightarrow> (c, http_Error w msg_request StatusInternalServerError)
           | Inr req0 \<Rightarrow>
               (let req = Header_Set (Header_Set (Header_Set req0
                            ''User-Agent'' (nominatimUserAgent x))
                            ''Accept'' ''application/json'')
                            ''Accept-Language'' ''fr'';
                    c1 = logged c (HTTPDo req)
                in case geoHTTPClient_Do x req of
                     Inl err \<Rightarrow> (c1, http_Error w msg_unavailable StatusBadGateway)
                   | Inr resp \<Rightarrow>
                       (case ReadAll_err resp of
                          Some err \<Rightarrow> (c1, http_Error w msg_read StatusInternalServerError)
                        | None \<Rightarrow>
                            (let b = ReadAll_data resp;
                                 c2 = (if StatusCode resp = StatusOK \<and> len b > 0
                                       then set' c1 nominatimURL b (24 * Hour) tset tsweep
                                       else c1)
                             in case WriteHeader
                                       (w_Header_Set w ''Content-Type''
                                          ''application/json; charset=utf-8'')
                                       (StatusCode resp) of
                                  Inl panic \<Rightarrow> (c2, Inl panic)
                                | Inr w1 \<Rightarrow> (c2, Inr (Write w1 (string_of b))))))))"

section \<open>Image processing and upload\<close>

definition MaxUploadSize :: int where
  "MaxUploadSize = 10 * 2 ^ 20"

definition MaxImageWidth :: int where
  "MaxImageWidth = 1200"

definition JpegQuality :: int where
  "JpegQuality = 80"

record FileHeader =
  Filename :: string
  Size :: int

text \<open>
  The errors \<^verbatim>\<open>processAndUploadImage\<close> returns: a message made by \<^verbatim>\<open>fmt.Errorf\<close>,
  a library error wrapped by \<^verbatim>\<open>fmt.Errorf\<close> with \<^verbatim>\<open>%w\<close> after a prefix, a library
  error returned as it is, and the \<^verbatim>\<open>httpError\<close> of the source with its two fields
  \<^verbatim>\<open>Status\<close> and \<^verbatim>\<open>Body\<close>.
\<close>

datatype error =
    Errorf string
  | Errorf_w string string
  | Lib string
  | httpError string string

fun Error :: "error \<Rightarrow> string" where
  "Error (httpError status b) = (if b = [] then status else status @ '' - '' @ b)"
| "Error (Errorf msg) = msg"
| "Error (Errorf_w prefix err) = prefix @ '': '' @ err"
| "Error (Lib err) = err"

definition TrimRight :: "string \<Rightarrow> string \<Rightarrow> string" where
  "TrimRight s cutset = rev (dropWhile (\<lambda>ch. ch \<in> set cutset) (rev s))"

text \<open>
  \<^verbatim>\<open>file\<close> is the content of the uploaded file, \<^verbatim>\<open>header\<close> may be nil, and
  \<open>unix\<close> is \<^verbatim>\<open>time.Now().Unix()\<close>. The result is the pair the Go function returns
  (the URL and the error, \<^term>\<open>None\<close> for nil) and the state afterwards.
\<close>

definition processAndUploadImage ::
  "ext \<Rightarrow> world \<Rightarrow> string \<Rightarrow> FileHeader option \<Rightarrow> string \<Rightarrow> int
     \<Rightarrow> (string \<times> error option) \<times> world" where
  "processAndUploadImage x c file header tastingID unix =
     (let supabaseURL = TrimRight (Getenv x ''SUPABASE_URL'') ''/'';
          jwtKey = TrimSpace x (Getenv x ''SUPABASE_SERVICE_ROLE_KEY'')
      in if supabaseURL = [] \<or> jwtKey = []
         then (([], Some (Errorf ''SUPABASE_URL ou SUPABASE_SERVICE_ROLE_KEY manquant'')), c)
         else if (case header of None \<Rightarrow> False | Some h \<Rightarrow> Size h > MaxUploadSize)
         then (([], Some (Errorf ''fichier trop volumineux (max 10MB)'')), c)
         else
           (let c1 = logged c (Decode file)
            in case image_Decode x file of
                 Inl err \<Rightarrow> (([], Some (Errorf_w ''decode image'' err)), c1)
               | Inr (img0, format) \<Rightarrow>
                   (let (img, c2) =
                          (if Dx img0 > MaxImageWidth
                           then (resize_Resize x (nat MaxImageWidth) 0 img0 Lanczos3,
                                 logged c1 (Resize (nat MaxImageWidth) 0 img0))
                           else (img0, c1));
                        c3 = logged c2 (Encode img JpegQuality)
                    in case jpeg_Encode x img JpegQuality of
                         Inl err \<Rightarrow> (([], Some (Errorf_w ''encode jpeg'' err)), c3)
                       | Inr buf \<Rightarrow>
                           (let fileName = ''tasting-'' @ tastingID @ ''-'' @ itoa unix @ ''.jpg'';
                                uploadURL = supabaseURL @ ''/storage/v1/object/photos/'' @ fileName
                            in case NewRequestWithContext x ''POST'' uploadURL (Some buf) of
                                 Inl err \<Rightarrow> (([], Some (Lib err)), c3)
                               | Inr req0 \<Rightarrow>
                                   (let req = Header_Set (Header_Set (Header_Set (Header_Set req0
                                                ''Authorization'' (''Bearer '' @ jwtKey))
                                                ''apikey'' jwtKey)
                                                ''Content-Type'' ''image/jpeg'')
                                                ''x-upsert'' ''true'';
                                        c4 = logged c3 (HTTPDo req)
                                    in case uploadHTTPClient_Do x req of
                                         Inl err \<Rightarrow> (([], Some (Lib err)), c4)
                                       | Inr resp \<Rightarrow>
                                           if StatusCode resp < 200 \<or> StatusCode resp \<ge> 300
                                           then (([], Some (httpError (Status resp)
                                                             (string_of (ReadAll_data resp)))), c4)
                                           else ((supabaseURL @ ''/storage/v1/object/public/photos/''
                                                    @ fileName, None), c4))))))"

section \<open>Names for what the functions build\<close>

text \<open>
  The definitions of this section give names to parts of the two functions above, so that
  the statements below can speak of them: the request each function hands to its client,
  the responses it writes, the guards it tests, the events it adds to the log. The lemmas
  \<open>proxy_miss\<close> and \<open>pipeline_decoded\<close> show that the functions compute exactly
  these.
\<close>

definition geoRequest :: "ext \<Rightarrow> string \<Rightarrow> request" where
  "geoRequest x url =
     Header_Set (Header_Set (Header_Set
       \<lparr>Method = ''GET'', URL = url, Header = Map.empty, ReqBody = None\<rparr>
       ''User-Agent'' (nominatimUserAgent x))
       ''Accept'' ''application/json'')
       ''Accept-Language'' ''fr''"

definition json_writer :: "int \<Rightarrow> string \<Rightarrow> ResponseWriter" where
  "json_writer code b =
     \<lparr>wHeader = [''Content-Type'' \<mapsto> ''application/json; charset=utf-8''],
      wInformational = [], wCode = Some code, wBody = b\<rparr>"

definition error_writer :: "int \<Rightarrow> string \<Rightarrow> ResponseWriter" where
  "error_writer code msg =
     \<lparr>wHeader = [''Content-Type'' \<mapsto> ''text/plain; charset=utf-8'',
                 ''X-Content-Type-Options'' \<mapsto> ''nosniff''],
      wInformational = [], wCode = Some code, wBody = msg @ [CHR 0x0A]\<rparr>"

definition configured :: "ext \<Rightarrow> bool" where
  "configured x \<longleftrightarrow>
     TrimRight (Getenv x ''SUPABASE_URL'') ''/'' \<noteq> [] \<and>
     TrimSpace x (Getenv x ''SUPABASE_SERVICE_ROLE_KEY'') \<noteq> []"

definition declared_too_large :: "FileHeader option \<Rightarrow> bool" where
  "declared_too_large header \<longleftrightarrow> (case header of None \<Rightarrow> False | Some h \<Rightarrow> Size h > MaxUploadSize)"

definition new_events :: "world \<Rightarrow> world \<Rightarrow> event list" where
  "new_events c c' = drop (length (trace c)) (trace c')"

definition encoder_input :: "ext \<Rightarrow> image \<Rightarrow> image" where
  "encoder_input x img0 =
     (if Dx img0 > MaxImageWidth then resize_Resize x (nat MaxImageWidth) 0 img0 Lanczos3 else img0)"

definition codec_events :: "ext \<Rightarrow> string \<Rightarrow> image \<Rightarrow> event list" where
  "codec_events x file img0 =
     Decode file # (if Dx img0 > MaxImageWidth then [Resize (nat MaxImageWidth) 0 img0] else [])
       @ [Encode (encoder_input x img0) JpegQuality]"

definition fileName :: "string \<Rightarrow> int \<Rightarrow> string" where
  "fileName tastingID unix = ''tasting-'' @ tastingID @ ''-'' @ itoa unix @ ''.jpg''"

definition uploadRequest :: "ext \<Rightarrow> string \<Rightarrow> int \<Rightarrow> string \<Rightarrow> request" where
  "uploadRequest x tastingID unix buf =
     Header_Set (Header_Set (Header_Set (Header_Set
       \<lparr>Method = ''POST'',
        URL = TrimRight (Getenv x ''SUPABASE_URL'') ''/'' @ ''/storage/v1/object/photos/''
                @ fileName tastingID unix,
        Header = Map.empty, ReqBody = Some buf\<rparr>
       ''Authorization'' (''Bearer '' @ TrimSpace x (Getenv x ''SUPABASE_SERVICE_ROLE_KEY'')))
       ''apikey'' (TrimSpace x (Getenv x ''SUPABASE_SERVICE_ROLE_KEY'')))
       ''Content-Type'' ''image/jpeg'')
       ''x-upsert'' ''true''"

definition publicURL :: "ext \<Rightarrow> string \<Rightarrow> int \<Rightarrow> string" where
  "publicURL x tastingID unix =
     TrimRight (Getenv x ''SUPABASE_URL'') ''/'' @ ''/storage/v1/object/public/photos/''
       @ fileName tastingID unix"

definition upload :: "ext \<Rightarrow> world \<Rightarrow> string \<Rightarrow> int \<Rightarrow> string \<Rightarrow> (string \<times> error option) \<times> world" where
  "upload x c tastingID unix buf =
     (case url_Parse_err x (URL (uploadRequest x tastingID unix buf)) of
        Some err \<Rightarrow> (([], Some (Lib err)), c)
      | None \<Rightarrow>
          (case uploadHTTPClient_Do x (uploadRequest x tastingID unix buf) of
             Inl err \<Rightarrow> (([], Some (Lib err)), logged c (HTTPDo (uploadRequest x tastingID unix buf)))
           | Inr resp \<Rightarrow>
               (if StatusCode resp < 200 \<or> 300 \<le> StatusCode resp
                then ([], Some (httpError (Status resp) (string_of (ReadAll_data resp))))
                else (publicURL x tastingID unix, None),
                logged c (HTTPDo (uploadRequest x tastingID unix buf)))))"

text \<open>
  \<^verbatim>\<open>resize.Resize\<close> is a function of a library outside the repository. Its documentation
  promises an image of the width asked for and, when the height asked for is 0, a height
  that keeps the aspect ratio; the height is a rounded quotient, so it is within one pixel
  of the exact one.
\<close>

definition resize_keeps_ratio :: "(nat \<Rightarrow> nat \<Rightarrow> image \<Rightarrow> interp \<Rightarrow> image) \<Rightarrow> bool" where
  "resize_keeps_ratio r \<longleftrightarrow>
     (\<forall>w img f. 0 < w \<and> 0 < Dx img \<and> 0 < Dy img \<longrightarrow>
        Dx (r w 0 img f) = int w \<and>
        \<bar>Dy (r w 0 img f) * Dx img - Dy img * int w\<bar> \<le> Dx img)"

section \<open>Sample inputs\<close>

text \<open>
  Concrete states, responses and environments, at which the theorems below are
  instantiated.
\<close>

definition fresh :: world where
  "fresh = \<lparr>entries = Map.empty, geoCacheSetCount = 0, trace = []\<rparr>"

definition stale :: world where
  "stale = \<lparr>entries = [''k'' \<mapsto> \<lparr>body = Some ''{}'', expiresAt = 100\<rparr>],
            geoCacheSetCount = 0, trace = []\<rparr>"


definition resp_ok :: response where
  "resp_ok = \<lparr>Status = ''200 OK'', StatusCode = 200, ReadAll_data = Some ''[{}]'', ReadAll_err = None\<rparr>"

definition resp_cut :: response where
  "resp_cut = \<lparr>Status = ''200 OK'', StatusCode = 200, ReadAll_data = Some ''[{'',
               ReadAll_err = Some ''unexpected EOF''\<rparr>"

definition resp_reset :: response where
  "resp_reset = \<lparr>Status = ''200 OK'', StatusCode = 200, ReadAll_data = Some ''[{lat'',
                 ReadAll_err = Some ''read tcp: connection reset by peer''\<rparr>"

definition resp_099 :: response where
  "resp_099 = \<lparr>Status = ''099 Odd'', StatusCode = 99, ReadAll_data = Some ''{}'',
               ReadAll_err = None\<rparr>"

definition resp_404 :: response where
  "resp_404 = \<lparr>Status = ''404 Not Found'', StatusCode = 404, ReadAll_data = Some ''[]'',
               ReadAll_err = None\<rparr>"

definition bad_url :: string where
  "bad_url = ''https://x/search?q=a'' @ [CHR 0x0A]"

definition resp_403 :: response where
  "resp_403 = \<lparr>Status = ''403 Forbidden'', StatusCode = 403, ReadAll_data = Some ''denied'',
               ReadAll_err = None\<rparr>"

definition ideal_resize :: "nat \<Rightarrow> nat \<Rightarrow> image \<Rightarrow> interp \<Rightarrow> image" where
  "ideal_resize w h img f =
     \<lparr>Dx = int w, Dy = (if h = 0 then (Dy img * int w) div Dx img else int h), pix = []\<rparr>"

definition img_wide :: image where
  "img_wide = \<lparr>Dx = 2400, Dy = 1000, pix = []\<rparr>"

definition jpeg_bytes :: string where
  "jpeg_bytes = [CHR 0xFF, CHR 0xD8, CHR 0xFF, CHR 0xD9]"

definition soi :: "string \<Rightarrow> bool" where
  "soi bs \<longleftrightarrow> take 2 bs = [CHR 0xFF, CHR 0xD8]"

definition has_CTL :: "string \<Rightarrow> bool" where
  "has_CTL u \<longleftrightarrow> list_ex (\<lambda>ch. of_char ch < (32 :: nat) \<or> of_char ch = (127 :: nat)) u"

definition ext_ok :: ext where
  "ext_ok =
     \<lparr>Getenv = (\<lambda>k. if k = ''SUPABASE_URL'' then ''https://s.example/''
                     else if k = ''SUPABASE_SERVICE_ROLE_KEY'' then ''key'' else []),
      TrimSpace = (\<lambda>s. s),
      url_Parse_err = (\<lambda>u. if has_CTL u then Some ''net/url: invalid control character in URL''
                           else None),
      geoHTTPClient_Do = (\<lambda>req. Inr resp_ok),
      uploadHTTPClient_Do = (\<lambda>req. Inr resp_403),
      image_Decode = (\<lambda>f. Inr (\<lparr>Dx = 2400, Dy = 1000, pix = []\<rparr>, ''png'')),
      resize_Resize = ideal_resize,
      jpeg_Encode = (\<lambda>img q. Inr [CHR 0xFF, CHR 0xD8, CHR 0xFF, CHR 0xD9])\<rparr>"

definition ext_unconfigured :: ext where
  "ext_unconfigured = ext_ok\<lparr>Getenv := (\<lambda>k. [])\<rparr>"

definition hdr_big :: FileHeader where
  "hdr_big = \<lparr>Filename = ''photo.png'', Size = 10485761\<rparr>"

definition hdr_small :: FileHeader where
  "hdr_small = \<lparr>Filename = ''photo.png'', Size = 2048\<rparr>"

section \<open>Expiry of cache entries\<close>

text \<open>
  C1, as stated (a lookup returns the entry only while the clock is strictly before the
  stored expiry), fails at the instant equal to the expiry: the entry expires at 100 and is
  still returned at 100.
\<close>

theorem get_at_expiry_counterexample:
  "get \<lparr>entries = [''k'' \<mapsto> \<lparr>body = Some ''{}'', expiresAt = 100\<rparr>],
        geoCacheSetCount = 0, trace = []\<rparr> ''k'' 100 = (Some ''{}'', True)
   \<and> \<not> (100 :: int) < expiresAt \<lparr>body = Some ''{}'', expiresAt = 100\<rparr>"
  by (simp add: get_def)

text \<open>
  C1, amended: a lookup returns the stored body exactly while the clock is not after the
  stored expiry, the instant of the expiry included; once the clock is strictly after the
  expiry the lookup reports "not found", although the entry is still in the map.
\<close>

text \<open>
  C1, amended: a lookup returns the stored body exactly while the clock is not after the
  stored expiry, the instant of the expiry included; once the clock is strictly after the
  expiry the lookup reports "not found", whether or not the entry was evicted.
\<close>

theorem get_expiry:
  "entries c key = Some e \<Longrightarrow>
     (now \<le> expiresAt e \<longrightarrow> get c key now = (body e, True)) \<and>
     (expiresAt e < now \<longrightarrow> get c key now = (None, False)) \<and>
     (snd (get c key now) \<longleftrightarrow> now \<le> expiresAt e)"
  by (auto simp: get_def)

theorem get_expiry_witness:
  "get \<lparr>entries = [''k'' \<mapsto> \<lparr>body = Some ''{}'', expiresAt = 100\<rparr>],
        geoCacheSetCount = 0, trace = []\<rparr> ''k'' 100 = (Some ''{}'', True)
   \<and> get \<lparr>entries = [''k'' \<mapsto> \<lparr>body = Some ''{}'', expiresAt = 100\<rparr>],
        geoCacheSetCount = 0, trace = []\<rparr> ''k'' 101 = (None, False)"
  using get_expiry [of "\<lparr>entries = [''k'' \<mapsto> \<lparr>body = Some ''{}'', expiresAt = 100\<rparr>],
        geoCacheSetCount = 0, trace = []\<rparr>" "''k''" "\<lparr>body = Some ''{}'', expiresAt = 100\<rparr>" 100]
    get_expiry [of "\<lparr>entries = [''k'' \<mapsto> \<lparr>body = Some ''{}'', expiresAt = 100\<rparr>],
        geoCacheSetCount = 0, trace = []\<rparr>" "''k''" "\<lparr>body = Some ''{}'', expiresAt = 100\<rparr>" 101]
  by simp

section \<open>The sweep runs on every 50th store\<close>










section \<open>Store, then look up\<close>

text \<open>
  C3: after \<^verbatim>\<open>set("https://x/search?q=a", {0x7b, 0x7d}, 24h)\<close> on any state, a lookup of
  the same key made at once (no later than 24 hours after the store, the sweep of the store,
  if it ran, included) returns the two bytes and \<^verbatim>\<open>true\<close>; the same lookup 25 hours
  later returns \<^verbatim>\<open>(nil, false)\<close>.
\<close>

theorem store_lookup_scenario:
  assumes "now \<le> now'" and "now' \<le> t" and "t \<le> now + 24 * Hour"
  shows "get (set' c ''https://x/search?q=a'' (Some [CHR 0x7b, CHR 0x7d]) (24 * Hour) now now')
             ''https://x/search?q=a'' t = (Some [CHR 0x7b, CHR 0x7d], True)
         \<and> get (set' c ''https://x/search?q=a'' (Some [CHR 0x7b, CHR 0x7d]) (24 * Hour) now now')
             ''https://x/search?q=a'' (t + 25 * Hour) = (None, False)"
  using assms by (simp add: get_def set'_def Let_def cleanupExpired_def Hour_def)

theorem store_lookup_scenario_witness:
  "get (set' fresh ''https://x/search?q=a'' (Some [CHR 0x7b, CHR 0x7d]) (24 * Hour) 0 0)
             ''https://x/search?q=a'' 0 = (Some [CHR 0x7b, CHR 0x7d], True)
         \<and> get (set' fresh ''https://x/search?q=a'' (Some [CHR 0x7b, CHR 0x7d]) (24 * Hour) 0 0)
             ''https://x/search?q=a'' (0 + 25 * Hour) = (None, False)"
  using store_lookup_scenario [of 0 0 0 fresh] by (simp add: Hour_def)

section \<open>Lookups do not write; the sweep removes the expired entries only\<close>

lemma run_gets: "\<forall>x \<in> set cs. \<not> is_Set x \<Longrightarrow> run c cs = c"
proof (induction cs)
  case Nil
  show ?case by simp
next
  case (Cons x xs)
  then show ?case by (cases x) simp_all
qed

text \<open>
  C10: a lookup leaves the state as it is, and so does any sequence of lookups; an entry
  whose expiry has passed is reported as not found and is still in the map afterwards; the
  sweep removes exactly the entries whose expiry is before the sweep's clock reading and
  leaves every other entry, and the counter, as they are; and a store whose counter value is
  not a multiple of 50 removes nothing.
\<close>

theorem lookup_read_only:
  "step c (Get key now) = c
   \<and> ((\<forall>x \<in> set gets. \<not> is_Set x) \<longrightarrow> run c gets = c)
   \<and> (entries c key = Some e \<and> expiresAt e < now \<longrightarrow>
        get c key now = (None, False) \<and> entries (step c (Get key now)) key = Some e)
   \<and> entries (cleanupExpired c t) k =
        (case entries c k of None \<Rightarrow> None | Some e' \<Rightarrow> if expiresAt e' < t then None else Some e')
   \<and> dom (entries (cleanupExpired c t)) = {k' \<in> dom (entries c). \<forall>e'. entries c k' = Some e' \<longrightarrow> \<not> expiresAt e' < t}
   \<and> geoCacheSetCount (cleanupExpired c t) = geoCacheSetCount c
   \<and> (go_rem (int64 (geoCacheSetCount c + 1)) 50 \<noteq> 0 \<longrightarrow>
        entries (set' c key' b ttl t t') = (entries c)(key' \<mapsto> \<lparr>body = b, expiresAt = t + ttl\<rparr>))"
proof -
  have "(\<forall>x \<in> set gets. \<not> is_Set x) \<longrightarrow> run c gets = c"
    using run_gets by blast
  moreover have "dom (entries (cleanupExpired c t)) = {k' \<in> dom (entries c). \<forall>e'. entries c k' = Some e' \<longrightarrow> \<not> expiresAt e' < t}"
    by (auto simp: cleanupExpired_def dom_def split: option.splits if_splits)
  moreover have "go_rem (int64 (geoCacheSetCount c + 1)) 50 \<noteq> 0 \<longrightarrow>
        entries (set' c key' b ttl t t') = (entries c)(key' \<mapsto> \<lparr>body = b, expiresAt = t + ttl\<rparr>)"
    by (simp add: set'_def Let_def)
  ultimately show ?thesis
    by (simp add: get_def cleanupExpired_def)
qed

theorem lookup_read_only_witness:
  "get stale ''k'' 101 = (None, False)
   \<and> entries (step stale (Get ''k'' 101)) ''k'' = Some \<lparr>body = Some ''{}'', expiresAt = 100\<rparr>
   \<and> run stale [Get ''k'' 101, Get ''k'' 5] = stale
   \<and> entries (cleanupExpired stale 101) ''k'' = None
   \<and> entries (set' stale ''j'' None 7 101 200) =
       (entries stale)(''j'' \<mapsto> \<lparr>body = None, expiresAt = 108\<rparr>)"
proof -
  have e: "entries stale ''k'' = Some \<lparr>body = Some ''{}'', expiresAt = 100\<rparr>
           \<and> expiresAt \<lparr>body = Some ''{}'', expiresAt = 100\<rparr> < 101"
    by (simp add: stale_def)
  have g: "\<forall>x \<in> set [Get ''k'' 101, Get ''k'' 5]. \<not> is_Set x"
    by simp
  have r: "go_rem (int64 (geoCacheSetCount stale + 1)) 50 \<noteq> 0"
    by (simp add: stale_def int64_def go_rem_def)
  from lookup_read_only [of stale "''k''" 101 "[Get ''k'' 101, Get ''k'' 5]"
      "\<lparr>body = Some ''{}'', expiresAt = 100\<rparr>" 101 "''k''" "''j''" None 7 200] e g r
  show ?thesis
    by (simp add: stale_def)
qed

section \<open>The proxy on a cache miss\<close>

lemma final_status:
  assumes "code = 101 \<or> 200 \<le> code \<and> code \<le> 999"
    and "bodyAllowedForStatus code \<or> b = []"
  shows "(case WriteHeader (w_Header_Set newResponseWriter ''Content-Type''
                 ''application/json; charset=utf-8'') code of
            Inl panic \<Rightarrow> Inl panic
          | Inr w1 \<Rightarrow> Inr (Write w1 b)) = Inr (json_writer code b)"
  using assms
  by (auto simp: Write_def WriteHeader_def w_Header_Set_def newResponseWriter_def json_writer_def
      StatusSwitchingProtocols_def Let_def)

lemma invalid_status:
  assumes "code < 100 \<or> 999 < code"
  shows "WriteHeader (w_Header_Set newResponseWriter k v) code =
           Inl (''invalid WriteHeader code '' @ itoa code)"
  using assms by (auto simp: WriteHeader_def w_Header_Set_def newResponseWriter_def)

lemma error_response:
  "http_Error newResponseWriter msg 500 = Inr (error_writer 500 msg)"
  "http_Error newResponseWriter msg 502 = Inr (error_writer 502 msg)"
  by (simp_all add: http_Error_def Write_def WriteHeader_def w_Header_Set_def newResponseWriter_def
      error_writer_def bodyAllowedForStatus_def StatusSwitchingProtocols_def Let_def)

lemma proxy_miss:
  assumes "snd (get c url tget) = False"
  shows "nominatimProxy x c url w tget tset tsweep =
     (case url_Parse_err x url of
        Some err \<Rightarrow> (c, http_Error w msg_request 500)
      | None \<Rightarrow>
         (case geoHTTPClient_Do x (geoRequest x url) of
            Inl err \<Rightarrow> (logged c (HTTPDo (geoRequest x url)), http_Error w msg_unavailable 502)
          | Inr resp \<Rightarrow>
              (case ReadAll_err resp of
                 Some err \<Rightarrow> (logged c (HTTPDo (geoRequest x url)), http_Error w msg_read 500)
               | None \<Rightarrow>
                  ((if StatusCode resp = 200 \<and> len (ReadAll_data resp) > 0
                    then set' (logged c (HTTPDo (geoRequest x url))) url (ReadAll_data resp)
                           (24 * Hour) tset tsweep
                    else logged c (HTTPDo (geoRequest x url))),
                   (case WriteHeader (w_Header_Set w ''Content-Type''
                            ''application/json; charset=utf-8'') (StatusCode resp) of
                      Inl panic \<Rightarrow> Inl panic
                    | Inr w1 \<Rightarrow> Inr (Write w1 (string_of (ReadAll_data resp))))))))"
proof -
  obtain cached where g: "get c url tget = (cached, False)"
    using assms by (cases "get c url tget") simp
  show ?thesis
    unfolding nominatimProxy_def g
    by (simp add: NewRequestWithContext_def geoRequest_def Let_def StatusOK_def
        StatusInternalServerError_def StatusBadGateway_def
        split: option.splits sum.splits)
qed

lemma set_entry:
  "tsweep \<le> tset + ttl \<Longrightarrow>
     entries (set' c key b ttl tset tsweep) key = Some \<lparr>body = b, expiresAt = tset + ttl\<rparr>"
  by (simp add: set'_def Let_def cleanupExpired_def)

lemma logged_frame:
  "entries (logged c ev) = entries c" "geoCacheSetCount (logged c ev) = geoCacheSetCount c"
  "trace (logged c ev) = trace c @ [ev]"
  by (simp_all add: logged_def)

lemma itoa_0: "itoa 0 = ''0''"
  by code_simp

lemma fresh_miss: "snd (get fresh u t) = False"
  by (simp add: get_def fresh_def)

lemma good_url: "url_Parse_err (ext_ok\<lparr>geoHTTPClient_Do := d\<rparr>) ''https://x/search?q=a'' = None"
  by (simp add: ext_ok_def has_CTL_def)

text \<open>
  C4, as stated (whenever an upstream response is received, its status code and body are
  returned as they are), fails in two ways. The response arrives with status 200 and
  reading its body fails: the proxy answers 500. The response arrives with the status code
  99, which the client accepts: \<^verbatim>\<open>WriteHeader\<close> panics and no status is written at all.
\<close>

theorem proxy_read_failure_counterexample:
  "snd (get fresh ''https://x/search?q=a'' 0) = False
   \<and> geoHTTPClient_Do (ext_ok\<lparr>geoHTTPClient_Do := (\<lambda>req. Inr resp_cut)\<rparr>)
        (geoRequest (ext_ok\<lparr>geoHTTPClient_Do := (\<lambda>req. Inr resp_cut)\<rparr>) ''https://x/search?q=a'')
       = Inr resp_cut
   \<and> StatusCode resp_cut = 200
   \<and> snd (nominatimProxy (ext_ok\<lparr>geoHTTPClient_Do := (\<lambda>req. Inr resp_cut)\<rparr>) fresh
        ''https://x/search?q=a'' newResponseWriter 0 0 0) = Inr (error_writer 500 msg_read)
   \<and> wCode (error_writer 500 msg_read) = Some 500
   \<and> StatusCode resp_099 = 99
   \<and> ReadAll_err resp_099 = None
   \<and> snd (nominatimProxy (ext_ok\<lparr>geoHTTPClient_Do := (\<lambda>req. Inr resp_099)\<rparr>) fresh
        ''https://x/search?q=a'' newResponseWriter 0 0 0) = Inl ''invalid WriteHeader code 99''"
proof -
  have i: "itoa 99 = ''99''"
    by code_simp
  show ?thesis
    unfolding proxy_miss [OF fresh_miss] good_url error_response
    by (simp add: fresh_miss ext_ok_def resp_cut_def resp_099_def error_writer_def
        invalid_status i)
qed

text \<open>
  C4, amended: on a cache miss with an upstream response whose body is read in full, the
  proxy stores an entry, with a TTL of 24 hours, if and only if the status is 200 and the
  body is not empty; it returns the upstream status code and body as they are whenever the
  response writer takes that code as a final status with that body (the code is 101 or from
  200 to 999, and the body is empty where the status allows none: 101, 204, 304); for a code
  below 100 or above 999 \<^verbatim>\<open>WriteHeader\<close> panics and nothing is returned; when reading the
  body fails, the proxy answers 500 and stores nothing.
\<close>

theorem proxy_miss_response:
  assumes "snd (get c url tget) = False"
    and "url_Parse_err x url = None"
    and "geoHTTPClient_Do x (geoRequest x url) = Inr resp"
  shows "(ReadAll_err resp = None \<longrightarrow>
            ((StatusCode resp = 101 \<or> 200 \<le> StatusCode resp \<and> StatusCode resp \<le> 999)
               \<and> (bodyAllowedForStatus (StatusCode resp) \<or> string_of (ReadAll_data resp) = []) \<longrightarrow>
               snd (nominatimProxy x c url newResponseWriter tget tset tsweep) =
                 Inr (json_writer (StatusCode resp) (string_of (ReadAll_data resp))))
            \<and> (StatusCode resp < 100 \<or> 999 < StatusCode resp \<longrightarrow>
                 snd (nominatimProxy x c url newResponseWriter tget tset tsweep) =
                   Inl (''invalid WriteHeader code '' @ itoa (StatusCode resp)))
            \<and> (StatusCode resp = 200 \<and> 0 < len (ReadAll_data resp) \<longrightarrow>
                 fst (nominatimProxy x c url newResponseWriter tget tset tsweep) =
                   set' (logged c (HTTPDo (geoRequest x url))) url (ReadAll_data resp)
                     (24 * Hour) tset tsweep
                 \<and> (tsweep \<le> tset + 24 * Hour \<longrightarrow>
                      entries (fst (nominatimProxy x c url newResponseWriter tget tset tsweep)) url =
                        Some \<lparr>body = ReadAll_data resp, expiresAt = tset + 24 * Hour\<rparr>))
            \<and> (\<not> (StatusCode resp = 200 \<and> 0 < len (ReadAll_data resp)) \<longrightarrow>
                 fst (nominatimProxy x c url newResponseWriter tget tset tsweep) =
                   logged c (HTTPDo (geoRequest x url))
                 \<and> entries (fst (nominatimProxy x c url newResponseWriter tget tset tsweep)) =
                     entries c
                 \<and> geoCacheSetCount (fst (nominatimProxy x c url newResponseWriter tget tset tsweep)) =
                     geoCacheSetCount c))
         \<and> (ReadAll_err resp \<noteq> None \<longrightarrow>
              snd (nominatimProxy x c url newResponseWriter tget tset tsweep) =
                Inr (error_writer 500 msg_read)
              \<and> fst (nominatimProxy x c url newResponseWriter tget tset tsweep) =
                  logged c (HTTPDo (geoRequest x url))
              \<and> entries (fst (nominatimProxy x c url newResponseWriter tget tset tsweep)) =
                  entries c
              \<and> geoCacheSetCount (fst (nominatimProxy x c url newResponseWriter tget tset tsweep)) =
                  geoCacheSetCount c)"
proof -
  have pass: "(StatusCode resp = 101 \<or> 200 \<le> StatusCode resp \<and> StatusCode resp \<le> 999)
       \<and> (bodyAllowedForStatus (StatusCode resp) \<or> string_of (ReadAll_data resp) = []) \<longrightarrow>
     (case WriteHeader (w_Header_Set newResponseWriter ''Content-Type''
                 ''application/json; charset=utf-8'') (StatusCode resp) of
        Inl panic \<Rightarrow> Inl panic
      | Inr w1 \<Rightarrow> Inr (Write w1 (string_of (ReadAll_data resp)))) =
       Inr (json_writer (StatusCode resp) (string_of (ReadAll_data resp)))"
    using final_status [of "StatusCode resp" "string_of (ReadAll_data resp)"] by blast
  have bad: "StatusCode resp < 100 \<or> 999 < StatusCode resp \<longrightarrow>
     (case WriteHeader (w_Header_Set newResponseWriter ''Content-Type''
                 ''application/json; charset=utf-8'') (StatusCode resp) of
        Inl panic \<Rightarrow> Inl panic
      | Inr w1 \<Rightarrow> Inr (Write w1 (string_of (ReadAll_data resp)))) =
       Inl (''invalid WriteHeader code '' @ itoa (StatusCode resp))"
    by (simp add: invalid_status)
  show ?thesis
    unfolding proxy_miss [OF assms(1)] assms(2) assms(3)
    using pass bad
    by (cases "ReadAll_err resp") (simp_all add: error_response set_entry logged_frame)
qed

theorem proxy_miss_response_witness:
  "snd (nominatimProxy ext_ok fresh ''https://x/search?q=a'' newResponseWriter 0 0 0) =
     Inr (json_writer 200 ''[{}]'')
   \<and> entries (fst (nominatimProxy ext_ok fresh ''https://x/search?q=a'' newResponseWriter 0 0 0))
        ''https://x/search?q=a'' = Some \<lparr>body = Some ''[{}]'', expiresAt = 24 * Hour\<rparr>
   \<and> snd (nominatimProxy (ext_ok\<lparr>geoHTTPClient_Do := (\<lambda>req. Inr resp_404)\<rparr>) fresh
        ''https://x/search?q=a'' newResponseWriter 0 0 0) = Inr (json_writer 404 ''[]'')
   \<and> entries (fst (nominatimProxy (ext_ok\<lparr>geoHTTPClient_Do := (\<lambda>req. Inr resp_404)\<rparr>) fresh
        ''https://x/search?q=a'' newResponseWriter 0 0 0)) = entries fresh"
proof -
  have u: "url_Parse_err ext_ok ''https://x/search?q=a'' = None"
    by (simp add: ext_ok_def has_CTL_def)
  have d: "geoHTTPClient_Do ext_ok (geoRequest ext_ok ''https://x/search?q=a'') = Inr resp_ok"
    by (simp add: ext_ok_def)
  have d': "geoHTTPClient_Do (ext_ok\<lparr>geoHTTPClient_Do := (\<lambda>req. Inr resp_404)\<rparr>)
       (geoRequest (ext_ok\<lparr>geoHTTPClient_Do := (\<lambda>req. Inr resp_404)\<rparr>) ''https://x/search?q=a'')
      = Inr resp_404"
    by simp
  have a: "snd (nominatimProxy ext_ok fresh ''https://x/search?q=a'' newResponseWriter 0 0 0) =
     Inr (json_writer 200 ''[{}]'')
   \<and> entries (fst (nominatimProxy ext_ok fresh ''https://x/search?q=a'' newResponseWriter 0 0 0))
        ''https://x/search?q=a'' = Some \<lparr>body = Some ''[{}]'', expiresAt = 24 * Hour\<rparr>"
    using proxy_miss_response [OF fresh_miss u d, of 0 0 0]
    by (auto simp: resp_ok_def len_def string_of_def Hour_def bodyAllowedForStatus_def)
  have b: "snd (nominatimProxy (ext_ok\<lparr>geoHTTPClient_Do := (\<lambda>req. Inr resp_404)\<rparr>) fresh
        ''https://x/search?q=a'' newResponseWriter 0 0 0) = Inr (json_writer 404 ''[]'')
   \<and> entries (fst (nominatimProxy (ext_ok\<lparr>geoHTTPClient_Do := (\<lambda>req. Inr resp_404)\<rparr>) fresh
        ''https://x/search?q=a'' newResponseWriter 0 0 0)) = entries fresh"
    using proxy_miss_response [OF fresh_miss good_url d', of 0 0 0]
    by (auto simp: resp_404_def len_def string_of_def bodyAllowedForStatus_def)
  from a b show ?thesis by blast
qed

text \<open>
  C5, as stated (a transport-level failure talking to upstream yields 502), fails when the
  connection breaks while the body of the response is read: the proxy answers 500.
\<close>

theorem proxy_body_failure_counterexample:
  "snd (get fresh ''https://x/search?q=a'' 0) = False
   \<and> geoHTTPClient_Do (ext_ok\<lparr>geoHTTPClient_Do := (\<lambda>req. Inr resp_reset)\<rparr>)
        (geoRequest (ext_ok\<lparr>geoHTTPClient_Do := (\<lambda>req. Inr resp_reset)\<rparr>) ''https://x/search?q=a'')
       = Inr resp_reset
   \<and> ReadAll_err resp_reset = Some ''read tcp: connection reset by peer''
   \<and> snd (nominatimProxy (ext_ok\<lparr>geoHTTPClient_Do := (\<lambda>req. Inr resp_reset)\<rparr>) fresh
        ''https://x/search?q=a'' newResponseWriter 0 0 0) = Inr (error_writer 500 msg_read)
   \<and> wCode (error_writer 500 msg_read) \<noteq> Some 502"
  unfolding proxy_miss [OF fresh_miss] good_url error_response
  by (simp add: fresh_miss ext_ok_def resp_reset_def error_writer_def)

text \<open>
  C5, amended: on a cache miss, a URL from which no request can be built yields status 500
  and no upstream call at all; a transport failure before the response arrives (the error
  of the one call of \<^verbatim>\<open>Do\<close>) yields status 502 with its own message; a failure while the
  body of the response is read yields status 500; in the last two cases the log shows that
  one upstream call and no other, and in all three the cache and the counter are
  unchanged.
\<close>

theorem proxy_failures:
  assumes "snd (get c url tget) = False"
  shows "(url_Parse_err x url = Some e \<longrightarrow>
            nominatimProxy x c url newResponseWriter tget tset tsweep =
              (c, Inr (error_writer 500 msg_request)))
         \<and> (url_Parse_err x url = None \<and> geoHTTPClient_Do x (geoRequest x url) = Inl e \<longrightarrow>
              nominatimProxy x c url newResponseWriter tget tset tsweep =
                (logged c (HTTPDo (geoRequest x url)), Inr (error_writer 502 msg_unavailable))
              \<and> trace (fst (nominatimProxy x c url newResponseWriter tget tset tsweep)) =
                  trace c @ [HTTPDo (geoRequest x url)]
              \<and> entries (fst (nominatimProxy x c url newResponseWriter tget tset tsweep)) = entries c
              \<and> geoCacheSetCount (fst (nominatimProxy x c url newResponseWriter tget tset tsweep)) =
                  geoCacheSetCount c)
         \<and> (url_Parse_err x url = None \<and> geoHTTPClient_Do x (geoRequest x url) = Inr resp
              \<and> ReadAll_err resp = Some e \<longrightarrow>
              nominatimProxy x c url newResponseWriter tget tset tsweep =
                (logged c (HTTPDo (geoRequest x url)), Inr (error_writer 500 msg_read))
              \<and> trace (fst (nominatimProxy x c url newResponseWriter tget tset tsweep)) =
                  trace c @ [HTTPDo (geoRequest x url)]
              \<and> entries (fst (nominatimProxy x c url newResponseWriter tget tset tsweep)) = entries c
              \<and> geoCacheSetCount (fst (nominatimProxy x c url newResponseWriter tget tset tsweep)) =
                  geoCacheSetCount c)"
  unfolding proxy_miss [OF assms]
  by (auto simp: error_response logged_frame)

theorem proxy_failures_witness:
  "nominatimProxy ext_ok fresh bad_url newResponseWriter 0 0 0 =
     (fresh, Inr (error_writer 500 msg_request))
   \<and> nominatimProxy (ext_ok\<lparr>geoHTTPClient_Do := (\<lambda>req. Inl ''dial tcp: timeout'')\<rparr>) fresh
       ''https://x/search?q=a'' newResponseWriter 0 0 0 =
       (logged fresh (HTTPDo (geoRequest (ext_ok\<lparr>geoHTTPClient_Do := (\<lambda>req. Inl ''dial tcp: timeout'')\<rparr>)
           ''https://x/search?q=a'')), Inr (error_writer 502 msg_unavailable))
   \<and> nominatimProxy (ext_ok\<lparr>geoHTTPClient_Do := (\<lambda>req. Inr resp_reset)\<rparr>) fresh
       ''https://x/search?q=a'' newResponseWriter 0 0 0 =
       (logged fresh (HTTPDo (geoRequest (ext_ok\<lparr>geoHTTPClient_Do := (\<lambda>req. Inr resp_reset)\<rparr>)
           ''https://x/search?q=a'')), Inr (error_writer 500 msg_read))"
proof -
  have b: "url_Parse_err ext_ok bad_url = Some ''net/url: invalid control character in URL''"
    by (simp add: ext_ok_def has_CTL_def bad_url_def)
  have r: "ReadAll_err resp_reset = Some ''read tcp: connection reset by peer''"
    by (simp add: resp_reset_def)
  show ?thesis
    using proxy_failures [OF fresh_miss, where x = ext_ok and url = bad_url
        and e = "''net/url: invalid control character in URL''"
        and tget = 0 and tset = 0 and tsweep = 0]
      proxy_failures [OF fresh_miss,
        where x = "ext_ok\<lparr>geoHTTPClient_Do := (\<lambda>req. Inl ''dial tcp: timeout'')\<rparr>"
        and url = "''https://x/search?q=a''" and e = "''dial tcp: timeout''"
        and tget = 0 and tset = 0 and tsweep = 0]
      proxy_failures [OF fresh_miss,
        where x = "ext_ok\<lparr>geoHTTPClient_Do := (\<lambda>req. Inr resp_reset)\<rparr>"
        and url = "''https://x/search?q=a''" and e = "''read tcp: connection reset by peer''"
        and resp = resp_reset and tget = 0 and tset = 0 and tsweep = 0]
      b r good_url
    by simp
qed

section \<open>The image pipeline\<close>

lemma new_events_app: "new_events c (c\<lparr>trace := trace c @ evs\<rparr>) = evs"
  by (simp add: new_events_def)

lemma new_events_same: "new_events c c = []"
  by (simp add: new_events_def)

lemma new_events_logged:
  "new_events c (logged (c\<lparr>trace := trace c @ evs\<rparr>) ev) = evs @ [ev]"
  by (simp add: new_events_def logged_def)

lemma pipeline_guards:
  "processAndUploadImage x c file header tastingID unix =
     (if \<not> configured x
      then (([], Some (Errorf ''SUPABASE_URL ou SUPABASE_SERVICE_ROLE_KEY manquant'')), c)
      else if (case header of None \<Rightarrow> False | Some h \<Rightarrow> Size h > MaxUploadSize)
      then (([], Some (Errorf ''fichier trop volumineux (max 10MB)'')), c)
      else processAndUploadImage x c file None tastingID unix)"
  by (simp add: processAndUploadImage_def configured_def Let_def)

lemma pipeline_early:
  "\<not> configured x \<or> declared_too_large header \<Longrightarrow>
     snd (processAndUploadImage x c file header tastingID unix) = c"
  by (auto simp: processAndUploadImage_def configured_def declared_too_large_def Let_def)

lemma pipeline_undecoded:
  assumes "configured x" and "\<not> declared_too_large header" and "image_Decode x file = Inl err"
  shows "processAndUploadImage x c file header tastingID unix =
           (([], Some (Errorf_w ''decode image'' err)), c\<lparr>trace := trace c @ [Decode file]\<rparr>)"
  using assms
  by (simp add: processAndUploadImage_def configured_def declared_too_large_def Let_def logged_def)

lemma pipeline_decoded:
  assumes "configured x" and "\<not> declared_too_large header"
    and "image_Decode x file = Inr (img0, format)"
  shows "processAndUploadImage x c file header tastingID unix =
           (case jpeg_Encode x (encoder_input x img0) JpegQuality of
              Inl err \<Rightarrow> (([], Some (Errorf_w ''encode jpeg'' err)),
                           c\<lparr>trace := trace c @ codec_events x file img0\<rparr>)
            | Inr buf \<Rightarrow> upload x (c\<lparr>trace := trace c @ codec_events x file img0\<rparr>) tastingID unix buf)"
proof -
  note defs = processAndUploadImage_def configured_def declared_too_large_def Let_def
    logged_def encoder_input_def codec_events_def upload_def uploadRequest_def publicURL_def
    fileName_def NewRequestWithContext_def Header_Set_def
  show ?thesis
  proof (cases "jpeg_Encode x (encoder_input x img0) JpegQuality")
    case (Inl err)
    with assms show ?thesis
      by (cases "Dx img0 > MaxImageWidth") (simp_all add: defs)
  next
    case (Inr buf)
    note enc = this
    show ?thesis
    proof (cases "url_Parse_err x (URL (uploadRequest x tastingID unix buf))")
      case (Some err)
      with assms enc show ?thesis
        by (cases "Dx img0 > MaxImageWidth") (simp_all add: defs)
    next
      case None
      note url = this
      show ?thesis
      proof (cases "uploadHTTPClient_Do x (uploadRequest x tastingID unix buf)")
        case (Inl err)
        with assms enc url show ?thesis
          by (cases "Dx img0 > MaxImageWidth") (simp_all add: defs)
      next
        case (Inr resp)
        with assms enc url show ?thesis
          by (cases "Dx img0 > MaxImageWidth") (simp_all add: defs)
      qed
    qed
  qed
qed

lemma codec_no_http: "HTTPDo req \<notin> set (codec_events x file img0)"
  by (simp add: codec_events_def)


lemma upload_frame:
  "entries (snd (upload x c tastingID unix buf)) = entries c"
  "geoCacheSetCount (snd (upload x c tastingID unix buf)) = geoCacheSetCount c"
  by (simp_all add: upload_def logged_def split: option.splits sum.splits)

lemma upload_sent:
  assumes "HTTPDo req \<in> set (new_events c (snd (upload x (c\<lparr>trace := trace c @ evs\<rparr>) tastingID unix buf)))"
    and "HTTPDo req \<notin> set evs"
  shows "req = uploadRequest x tastingID unix buf
         \<and> url_Parse_err x (URL (uploadRequest x tastingID unix buf)) = None
         \<and> fst (upload x (c\<lparr>trace := trace c @ evs\<rparr>) tastingID unix buf) =
             (case uploadHTTPClient_Do x req of
                Inl err \<Rightarrow> ([], Some (Lib err))
              | Inr resp \<Rightarrow>
                  if StatusCode resp < 200 \<or> 300 \<le> StatusCode resp
                  then ([], Some (httpError (Status resp) (string_of (ReadAll_data resp))))
                  else (publicURL x tastingID unix, None))"
  using assms
  by (auto simp: upload_def new_events_logged new_events_app split: option.splits sum.splits)

lemma pipeline_frame:
  "entries (snd (processAndUploadImage x c file header tastingID unix)) = entries c
   \<and> geoCacheSetCount (snd (processAndUploadImage x c file header tastingID unix)) =
       geoCacheSetCount c"
proof (cases "\<not> configured x \<or> declared_too_large header")
  case True
  then show ?thesis by (simp add: pipeline_early)
next
  case False
  then have g: "configured x" "\<not> declared_too_large header" by simp_all
  show ?thesis
  proof (cases "image_Decode x file")
    case (Inl err)
    show ?thesis by (simp add: pipeline_undecoded [OF g Inl])
  next
    case (Inr r)
    obtain img0 format where "r = (img0, format)" by (cases r)
    with Inr have d: "image_Decode x file = Inr (img0, format)" by simp
    show ?thesis
      by (simp add: pipeline_decoded [OF g d] upload_frame split: sum.splits)
  qed
qed

lemma pipeline_sent:
  assumes "HTTPDo req \<in> set (new_events c (snd (processAndUploadImage x c file header tastingID unix)))"
  shows "\<exists>img0 format buf.
           configured x \<and> \<not> declared_too_large header
           \<and> image_Decode x file = Inr (img0, format)
           \<and> jpeg_Encode x (encoder_input x img0) JpegQuality = Inr buf
           \<and> req = uploadRequest x tastingID unix buf
           \<and> fst (processAndUploadImage x c file header tastingID unix) =
               (case uploadHTTPClient_Do x req of
                  Inl err \<Rightarrow> ([], Some (Lib err))
                | Inr resp \<Rightarrow>
                    if StatusCode resp < 200 \<or> 300 \<le> StatusCode resp
                    then ([], Some (httpError (Status resp) (string_of (ReadAll_data resp))))
                    else (publicURL x tastingID unix, None))"
proof (cases "\<not> configured x \<or> declared_too_large header")
  case True
  with assms show ?thesis by (simp add: pipeline_early new_events_same)
next
  case False
  then have g: "configured x" "\<not> declared_too_large header" by simp_all
  show ?thesis
  proof (cases "image_Decode x file")
    case (Inl err)
    with assms show ?thesis by (simp add: pipeline_undecoded [OF g Inl] new_events_app)
  next
    case (Inr r)
    obtain img0 format where "r = (img0, format)" by (cases r)
    with Inr have d: "image_Decode x file = Inr (img0, format)" by simp
    show ?thesis
    proof (cases "jpeg_Encode x (encoder_input x img0) JpegQuality")
      case (Inl err)
      with assms show ?thesis
        by (simp add: pipeline_decoded [OF g d] new_events_app codec_no_http)
    next
      case (Inr buf)
      from assms have "HTTPDo req \<in> set (new_events c (snd (upload x
          (c\<lparr>trace := trace c @ codec_events x file img0\<rparr>) tastingID unix buf)))"
        by (simp add: pipeline_decoded [OF g d] Inr)
      from upload_sent [OF this codec_no_http] show ?thesis
        using g d Inr by (simp add: pipeline_decoded [OF g d])
    qed
  qed
qed



lemma ideal_resize_ratio: "resize_keeps_ratio ideal_resize"
proof -
  have "\<bar>a div b * b - a\<bar> \<le> b" if "0 < b" for a b :: int
  proof -
    have "a div b * b - a = - (a mod b)"
      by (simp add: minus_mod_eq_div_mult [symmetric])
    moreover have "0 \<le> a mod b" "a mod b < b"
      using that by simp_all
    ultimately show ?thesis by simp
  qed
  then show ?thesis
    by (simp add: resize_keeps_ratio_def ideal_resize_def)
qed

lemma configured_ok: "configured ext_ok"
  by (simp add: configured_def ext_ok_def TrimRight_def)

lemma small_ok: "\<not> declared_too_large (Some hdr_small)"
  by (simp add: declared_too_large_def hdr_small_def MaxUploadSize_def)

lemma decode_ok: "image_Decode ext_ok ''abc'' = Inr (img_wide, ''png'')"
  by (simp add: ext_ok_def img_wide_def)

lemma upload_ok_sent:
  "HTTPDo (uploadRequest ext_ok ''t1'' 0 jpeg_bytes)
     \<in> set (new_events fresh (snd (processAndUploadImage ext_ok fresh ''abc'' (Some hdr_small) ''t1'' 0)))"
proof -
  have e: "jpeg_Encode ext_ok (encoder_input ext_ok img_wide) JpegQuality = Inr jpeg_bytes"
    by (simp add: ext_ok_def jpeg_bytes_def)
  have u: "url_Parse_err ext_ok (URL (uploadRequest ext_ok ''t1'' 0 jpeg_bytes)) = None"
    by (simp add: ext_ok_def uploadRequest_def Header_Set_def has_CTL_def TrimRight_def
        fileName_def itoa_0)
  have d: "uploadHTTPClient_Do ext_ok (uploadRequest ext_ok ''t1'' 0 jpeg_bytes) = Inr resp_403"
    by (simp add: ext_ok_def)
  show ?thesis
    by (simp add: pipeline_decoded [OF configured_ok small_ok decode_ok] e upload_def u d
        new_events_logged)
qed



text \<open>
  C7, as stated (a declared size above 10 MiB always fails as too large), fails when the
  storage is not configured: the configuration is tested first, and its error is returned.
\<close>

theorem size_rejection_counterexample:
  "Size hdr_big > MaxUploadSize
   \<and> processAndUploadImage ext_unconfigured fresh ''abc'' (Some hdr_big) ''t1'' 0 =
       (([], Some (Errorf ''SUPABASE_URL ou SUPABASE_SERVICE_ROLE_KEY manquant'')), fresh)"
  by (simp add: processAndUploadImage_def ext_unconfigured_def ext_ok_def hdr_big_def
      MaxUploadSize_def TrimRight_def Let_def)

text \<open>
  C7, amended: a declared size above 10 MiB makes the call fail before any decode attempt,
  with nothing added to the log: as too large when both storage settings are present, and
  with the configuration error when one of them is missing.
\<close>

theorem size_rejection:
  assumes "header = Some h" and "Size h > MaxUploadSize"
  shows "(configured x \<longrightarrow>
            processAndUploadImage x c file header tastingID unix =
              (([], Some (Errorf ''fichier trop volumineux (max 10MB)'')), c))
         \<and> (\<not> configured x \<longrightarrow>
            processAndUploadImage x c file header tastingID unix =
              (([], Some (Errorf ''SUPABASE_URL ou SUPABASE_SERVICE_ROLE_KEY manquant'')), c))
         \<and> new_events c (snd (processAndUploadImage x c file header tastingID unix)) = []"
  using assms by (simp add: pipeline_guards new_events_same)

theorem size_rejection_witness:
  "processAndUploadImage ext_ok fresh ''abc'' (Some hdr_big) ''t1'' 0 =
     (([], Some (Errorf ''fichier trop volumineux (max 10MB)'')), fresh)"
proof -
  have "Size hdr_big > MaxUploadSize"
    by (simp add: hdr_big_def MaxUploadSize_def)
  from size_rejection [OF refl this, of ext_ok fresh "''abc''" "''t1''" 0] show ?thesis
    using configured_ok by simp
qed

text \<open>
  C8: for an image that decodes (storage configured, declared size within the limit), the
  JPEG encoder is always called, at quality 80 and whatever the format of the source, on the
  decoded image or, above 1200 pixels of width, on its resized version. When the encoder
  fails the call returns its error and uploads nothing. When it succeeds and the upload
  request can be built, exactly one request is sent: a POST of the encoder's output, as
  \<^verbatim>\<open>image/jpeg\<close>, to an object name that ends in \<^verbatim>\<open>.jpg\<close>; its body is a JPEG
  whenever the encoder's output is one, and a 2xx answer makes the call return the public
  URL of that object.
\<close>

theorem jpeg_normalisation:
  assumes "configured x" and "\<not> declared_too_large header"
    and "image_Decode x file = Inr (img0, format)"
    and "\<forall>i q bs. jpeg_Encode x i q = Inr bs \<longrightarrow> is_jpeg bs"
    and "img = (if 1200 < Dx img0 then resize_Resize x 1200 0 img0 Lanczos3 else img0)"
    and "evs = Decode file # (if 1200 < Dx img0 then [Resize 1200 0 img0] else [])
                 @ [Encode img 80]"
    and "p = processAndUploadImage x c file header tastingID unix"
  shows "(\<forall>err. jpeg_Encode x img 80 = Inl err \<longrightarrow>
            p = (([], Some (Errorf_w ''encode jpeg'' err)), c\<lparr>trace := trace c @ evs\<rparr>))
         \<and> (\<forall>buf. jpeg_Encode x img 80 = Inr buf \<longrightarrow>
              is_jpeg buf
              \<and> Method (uploadRequest x tastingID unix buf) = ''POST''
              \<and> ReqBody (uploadRequest x tastingID unix buf) = Some buf
              \<and> Header (uploadRequest x tastingID unix buf) ''Content-Type'' = Some ''image/jpeg''
              \<and> URL (uploadRequest x tastingID unix buf) =
                  TrimRight (Getenv x ''SUPABASE_URL'') ''/'' @ ''/storage/v1/object/photos/tasting-''
                    @ tastingID @ ''-'' @ itoa unix @ ''.jpg''
              \<and> (\<forall>err. url_Parse_err x (URL (uploadRequest x tastingID unix buf)) = Some err \<longrightarrow>
                    p = (([], Some (Lib err)), c\<lparr>trace := trace c @ evs\<rparr>))
              \<and> (url_Parse_err x (URL (uploadRequest x tastingID unix buf)) = None \<longrightarrow>
                    snd p = c\<lparr>trace := trace c @ evs @ [HTTPDo (uploadRequest x tastingID unix buf)]\<rparr>
                    \<and> (\<forall>resp. uploadHTTPClient_Do x (uploadRequest x tastingID unix buf) = Inr resp
                           \<and> 200 \<le> StatusCode resp \<and> StatusCode resp < 300 \<longrightarrow>
                         fst p = (TrimRight (Getenv x ''SUPABASE_URL'') ''/''
                                    @ ''/storage/v1/object/public/photos/tasting-''
                                    @ tastingID @ ''-'' @ itoa unix @ ''.jpg'', None))))"
proof -
  have i: "encoder_input x img0 = img"
    unfolding assms(5) by (simp add: encoder_input_def MaxImageWidth_def)
  have e: "codec_events x file img0 = evs"
    unfolding assms(6) i [symmetric]
    by (simp add: codec_events_def MaxImageWidth_def JpegQuality_def)
  have p: "p = (case jpeg_Encode x img 80 of
              Inl err \<Rightarrow> (([], Some (Errorf_w ''encode jpeg'' err)), c\<lparr>trace := trace c @ evs\<rparr>)
            | Inr buf \<Rightarrow> upload x (c\<lparr>trace := trace c @ evs\<rparr>) tastingID unix buf)"
    unfolding assms(7) pipeline_decoded [OF assms(1-3)] i e by (simp add: JpegQuality_def)
  have failed: "\<forall>err. jpeg_Encode x img 80 = Inl err \<longrightarrow>
            p = (([], Some (Errorf_w ''encode jpeg'' err)), c\<lparr>trace := trace c @ evs\<rparr>)"
    unfolding p by simp
  have req: "Method (uploadRequest x tastingID unix buf) = ''POST''
              \<and> ReqBody (uploadRequest x tastingID unix buf) = Some buf
              \<and> Header (uploadRequest x tastingID unix buf) ''Content-Type'' = Some ''image/jpeg''
              \<and> URL (uploadRequest x tastingID unix buf) =
                  TrimRight (Getenv x ''SUPABASE_URL'') ''/'' @ ''/storage/v1/object/photos/tasting-''
                    @ tastingID @ ''-'' @ itoa unix @ ''.jpg''" for buf
    by (simp add: uploadRequest_def Header_Set_def fileName_def)
  have unbuilt: "\<forall>err. url_Parse_err x (URL (uploadRequest x tastingID unix buf)) = Some err \<longrightarrow>
                    p = (([], Some (Lib err)), c\<lparr>trace := trace c @ evs\<rparr>)"
    if "jpeg_Encode x img 80 = Inr buf" for buf
    unfolding p that by (simp add: upload_def)
  have sent: "url_Parse_err x (URL (uploadRequest x tastingID unix buf)) = None \<longrightarrow>
                    snd p = c\<lparr>trace := trace c @ evs @ [HTTPDo (uploadRequest x tastingID unix buf)]\<rparr>
                    \<and> (\<forall>resp. uploadHTTPClient_Do x (uploadRequest x tastingID unix buf) = Inr resp
                           \<and> 200 \<le> StatusCode resp \<and> StatusCode resp < 300 \<longrightarrow>
                         fst p = (TrimRight (Getenv x ''SUPABASE_URL'') ''/''
                                    @ ''/storage/v1/object/public/photos/tasting-''
                                    @ tastingID @ ''-'' @ itoa unix @ ''.jpg'', None))"
    if "jpeg_Encode x img 80 = Inr buf" for buf
    unfolding p that
    by (auto simp: upload_def logged_def publicURL_def fileName_def split: sum.splits)
  from assms(4) have "\<forall>buf. jpeg_Encode x img 80 = Inr buf \<longrightarrow> is_jpeg buf"
    by blast
  with failed req unbuilt sent show ?thesis
    by blast
qed

lemma upload_url_ok:
  "url_Parse_err (ext_ok\<lparr>uploadHTTPClient_Do := d\<rparr>)
     (URL (uploadRequest (ext_ok\<lparr>uploadHTTPClient_Do := d\<rparr>) ''t1'' 0 jpeg_bytes)) = None"
  by (simp add: ext_ok_def uploadRequest_def Header_Set_def has_CTL_def TrimRight_def
      fileName_def itoa_0)

theorem jpeg_normalisation_witness:
  "fst (processAndUploadImage (ext_ok\<lparr>uploadHTTPClient_Do := (\<lambda>req. Inr resp_ok)\<rparr>) fresh ''abc''
          (Some hdr_small) ''t1'' 0) =
     (''https://s.example/storage/v1/object/public/photos/tasting-t1-0.jpg'', None)
   \<and> trace (snd (processAndUploadImage (ext_ok\<lparr>uploadHTTPClient_Do := (\<lambda>req. Inr resp_ok)\<rparr>) fresh
          ''abc'' (Some hdr_small) ''t1'' 0)) =
       [Decode ''abc'', Resize 1200 0 img_wide, Encode \<lparr>Dx = 1200, Dy = 500, pix = []\<rparr> 80,
        HTTPDo (uploadRequest (ext_ok\<lparr>uploadHTTPClient_Do := (\<lambda>req. Inr resp_ok)\<rparr>) ''t1'' 0
                  jpeg_bytes)]
   \<and> ReqBody (uploadRequest (ext_ok\<lparr>uploadHTTPClient_Do := (\<lambda>req. Inr resp_ok)\<rparr>) ''t1'' 0
                jpeg_bytes) = Some jpeg_bytes
   \<and> soi jpeg_bytes"
proof -
  let ?x = "ext_ok\<lparr>uploadHTTPClient_Do := (\<lambda>req. Inr resp_ok)\<rparr>"
  have g: "configured ?x"
    by (simp add: configured_def ext_ok_def TrimRight_def)
  have d: "image_Decode ?x ''abc'' = Inr (img_wide, ''png'')"
    by (simp add: ext_ok_def img_wide_def)
  have j: "\<forall>i q bs. jpeg_Encode ?x i q = Inr bs \<longrightarrow> soi bs"
    by (simp add: ext_ok_def soi_def)
  have w: "1200 < Dx img_wide"
    by (simp add: img_wide_def)
  have r: "resize_Resize ?x 1200 0 img_wide Lanczos3 = \<lparr>Dx = 1200, Dy = 500, pix = []\<rparr>"
    by (simp add: ext_ok_def ideal_resize_def img_wide_def)
  have e: "jpeg_Encode ?x \<lparr>Dx = 1200, Dy = 500, pix = []\<rparr> 80 = Inr jpeg_bytes"
    by (simp add: ext_ok_def jpeg_bytes_def)
  have u: "uploadHTTPClient_Do ?x (uploadRequest ?x ''t1'' 0 jpeg_bytes) = Inr resp_ok
           \<and> 200 \<le> StatusCode resp_ok \<and> StatusCode resp_ok < 300"
    by (simp add: resp_ok_def)
  have t: "TrimRight (Getenv ?x ''SUPABASE_URL'') ''/'' = ''https://s.example''"
    by (simp add: ext_ok_def TrimRight_def)
  have i: "itoa 0 = ''0''"
    by (rule itoa_0)
  from jpeg_normalisation [OF g small_ok d j refl refl refl, of fresh "''t1''" 0]
    w r e u upload_url_ok [of "\<lambda>req. Inr resp_ok"] t i
  show ?thesis
    by (simp add: fresh_def)
qed

text \<open>
  C9: when the storage endpoint answers the upload request with a status outside 200..299,
  the call returns the empty URL and an \<^verbatim>\<open>httpError\<close> holding the status line and the
  body of that response (its message joins the two), and the cache entries and the counter
  are what they were.
\<close>

theorem upload_rejected:
  assumes "processAndUploadImage x c file header tastingID unix = (res, c')"
    and "HTTPDo req \<in> set (new_events c c')"
    and "uploadHTTPClient_Do x req = Inr resp"
    and "StatusCode resp < 200 \<or> 300 \<le> StatusCode resp"
  shows "res = ([], Some (httpError (Status resp) (string_of (ReadAll_data resp))))
         \<and> Error (httpError (Status resp) (string_of (ReadAll_data resp))) =
             (if string_of (ReadAll_data resp) = [] then Status resp
              else Status resp @ '' - '' @ string_of (ReadAll_data resp))
         \<and> entries c' = entries c
         \<and> geoCacheSetCount c' = geoCacheSetCount c"
proof -
  have c': "c' = snd (processAndUploadImage x c file header tastingID unix)"
    and res: "res = fst (processAndUploadImage x c file header tastingID unix)"
    using assms(1) by simp_all
  from assms(2) pipeline_sent [of req c x "file" "header" tastingID unix]
  have "res = (case uploadHTTPClient_Do x req of
                  Inl err \<Rightarrow> ([], Some (Lib err))
                | Inr resp \<Rightarrow>
                    if StatusCode resp < 200 \<or> 300 \<le> StatusCode resp
                    then ([], Some (httpError (Status resp) (string_of (ReadAll_data resp))))
                    else (publicURL x tastingID unix, None))"
    unfolding c' res by blast
  then have "res = ([], Some (httpError (Status resp) (string_of (ReadAll_data resp))))"
    using assms(3,4) by simp
  then show ?thesis
    using pipeline_frame [of x c "file" "header" tastingID unix] unfolding c' by simp
qed

theorem upload_rejected_witness:
  "fst (processAndUploadImage ext_ok fresh ''abc'' (Some hdr_small) ''t1'' 0) =
     ([], Some (httpError ''403 Forbidden'' ''denied''))
   \<and> entries (snd (processAndUploadImage ext_ok fresh ''abc'' (Some hdr_small) ''t1'' 0)) = entries fresh"
proof -
  have p: "processAndUploadImage ext_ok fresh ''abc'' (Some hdr_small) ''t1'' 0 =
             (fst (processAndUploadImage ext_ok fresh ''abc'' (Some hdr_small) ''t1'' 0),
              snd (processAndUploadImage ext_ok fresh ''abc'' (Some hdr_small) ''t1'' 0))"
    by simp
  have d: "uploadHTTPClient_Do ext_ok (uploadRequest ext_ok ''t1'' 0 jpeg_bytes) = Inr resp_403"
    by (simp add: ext_ok_def)
  have n: "StatusCode resp_403 < 200 \<or> 300 \<le> StatusCode resp_403"
    by (simp add: resp_403_def)
  from upload_rejected [OF p upload_ok_sent d n] show ?thesis
    by (simp add: resp_403_def string_of_def)
qed

end
